theory Spec2Isabelle
  imports Complex_Main "HOL-Library.Word" "HOL-Library.AList"
begin

section \<open>JavaScript values, objects and the heap\<close>

text \<open>
  The program is JavaScript: every argument is an arbitrary value and each check of the
  source is a run-time test (\<^verbatim>\<open>typeof\<close>, truthiness). A string is its sequence of
  UTF-16 code units. An object is a reference into a heap of objects; a function value
  also carries which function it is, so that a call can be followed.
\<close>

type_synonym jsstring = "16 word list"

definition str :: "string \<Rightarrow> jsstring" where
  "str s = map (\<lambda>c. word_of_nat (of_char c)) s"

datatype jsval =
    JUndefined
  | JNull
  | JBool bool
  | JNum real
  | JNaN
  | JInfinity
  | JNegInfinity
  | JBigInt int
  | JSymbol nat
  | JStr jsstring
  | JObject nat
  | JArray nat
  | JFunction fcode nat
and fcode =
    HostFunction
  | AttachedSuccess jsval jsval
  | AttachedFail jsval jsval
  | AttachedError jsval jsval

text \<open>
  \<open>JObject a\<close>, \<open>JArray a\<close> and \<open>JFunction c a\<close> refer to the object at address \<open>a\<close>.
  \<open>HostFunction\<close> is a function that is not part of this repository; the other three
  codes are the arrow functions of \<^verbatim>\<open>jsendMiddleware\<close>, with the variables they
  capture (\<^verbatim>\<open>res\<close> and the label).

  The heap holds, for each address, the own enumerable properties of the object in
  property order; an array is the object whose keys are its indices. Addresses are
  positions in the list, and a new object is appended.
\<close>

type_synonym props = "(jsstring \<times> jsval) list"
type_synonym heap = "props list"

datatype response_write = SetStatus jsval | SendJson jsval

record state =
  heap :: heap
  writes :: "response_write list"
  next_calls :: nat

datatype error =
    InvalidResponseTarget
  | InvalidDataKind
  | InvalidMessage
  | InvalidExtraKind
  | TypeError

type_synonym result = "(error + jsval) \<times> state"

fun typeof :: "jsval \<Rightarrow> string" where
  "typeof JUndefined = ''undefined''"
| "typeof JNull = ''object''"
| "typeof (JBool b) = ''boolean''"
| "typeof (JNum x) = ''number''"
| "typeof JNaN = ''number''"
| "typeof JInfinity = ''number''"
| "typeof JNegInfinity = ''number''"
| "typeof (JBigInt n) = ''bigint''"
| "typeof (JSymbol n) = ''symbol''"
| "typeof (JStr s) = ''string''"
| "typeof (JObject a) = ''object''"
| "typeof (JArray a) = ''object''"
| "typeof (JFunction c a) = ''function''"

fun truthy :: "jsval \<Rightarrow> bool" where
  "truthy JUndefined = False"
| "truthy JNull = False"
| "truthy (JBool b) = b"
| "truthy (JNum x) = (x \<noteq> 0)"
| "truthy JNaN = False"
| "truthy JInfinity = True"
| "truthy JNegInfinity = True"
| "truthy (JBigInt n) = (n \<noteq> 0)"
| "truthy (JSymbol n) = True"
| "truthy (JStr s) = (s \<noteq> [])"
| "truthy (JObject a) = True"
| "truthy (JArray a) = True"
| "truthy (JFunction c a) = True"

definition obj_props :: "heap \<Rightarrow> nat \<Rightarrow> props" where
  "obj_props h a = (if a < length h then h ! a else [])"

definition nullish :: "jsval \<Rightarrow> bool" where
  "nullish v = (v = JUndefined \<or> v = JNull)"

text \<open>
  \<open>get_prop h v k\<close> is the read \<^verbatim>\<open>v.k\<close> for \<open>v\<close> other than \<^verbatim>\<open>undefined\<close> and
  \<^verbatim>\<open>null\<close>, on which the read throws a TypeError: every read below that can meet one of
  them tests \<open>nullish\<close> first. It is the own property of an object, and \<^verbatim>\<open>undefined\<close>
  when there is none or when \<open>v\<close> is a primitive. It is used for the names this program
  reads (\<^verbatim>\<open>status\<close>, \<^verbatim>\<open>json\<close>, \<^verbatim>\<open>code\<close>, \<^verbatim>\<open>details\<close>, \<^verbatim>\<open>extra\<close>,
  \<^verbatim>\<open>jsend\<close>, \<^verbatim>\<open>success\<close>, \<^verbatim>\<open>fail\<close>, \<^verbatim>\<open>error\<close> and the three labels), none of
  which a built-in prototype defines.
\<close>

definition lookup :: "props \<Rightarrow> jsstring \<Rightarrow> jsval" where
  "lookup ps k = (case map_of ps k of Some v \<Rightarrow> v | None \<Rightarrow> JUndefined)"

fun get_prop :: "heap \<Rightarrow> jsval \<Rightarrow> jsstring \<Rightarrow> jsval" where
  "get_prop h (JObject a) k = lookup (obj_props h a) k"
| "get_prop h (JArray a) k = lookup (obj_props h a) k"
| "get_prop h (JFunction c a) k = lookup (obj_props h a) k"
| "get_prop h v k = JUndefined"

text \<open>
  \<open>set_prop h v k x\<close> is the assignment \<^verbatim>\<open>v.k = x\<close> on an object: an existing key keeps
  its place, a new key is added last.
\<close>

fun set_prop :: "heap \<Rightarrow> jsval \<Rightarrow> jsstring \<Rightarrow> jsval \<Rightarrow> heap" where
  "set_prop h (JObject a) k x = (if a < length h then h[a := AList.update k x (h ! a)] else h)"
| "set_prop h (JArray a) k x = (if a < length h then h[a := AList.update k x (h ! a)] else h)"
| "set_prop h (JFunction c a) k x = (if a < length h then h[a := AList.update k x (h ! a)] else h)"
| "set_prop h v k x = h"

text \<open>A parameter with a default takes it exactly when the argument is \<^verbatim>\<open>undefined\<close>.\<close>

definition default_param :: "jsval \<Rightarrow> jsval \<Rightarrow> jsval" where
  "default_param v d = (if v = JUndefined then d else v)"

text \<open>The \<open>i\<close>-th argument of a call: \<^verbatim>\<open>undefined\<close> when fewer were passed.\<close>

definition arg :: "jsval list \<Rightarrow> nat \<Rightarrow> jsval" where
  "arg args i = (if i < length args then args ! i else JUndefined)"

text \<open>
  A parameter \<^verbatim>\<open>options = {}\<close> (and \<^verbatim>\<open>config = {}\<close>): when the argument is
  \<^verbatim>\<open>undefined\<close> the value is a new empty object, every property of which reads
  \<^verbatim>\<open>undefined\<close>. That object never leaves the call, so it is not put on the heap.
\<close>

definition option_prop :: "heap \<Rightarrow> jsval \<Rightarrow> jsstring \<Rightarrow> jsval" where
  "option_prop h options0 k = (if options0 = JUndefined then JUndefined else get_prop h options0 k)"

text \<open>
  \<^verbatim>\<open>String.prototype.trim\<close> removes the leading and trailing code units that are
  ECMAScript white space or line terminators.
\<close>

definition js_whitespace :: "16 word \<Rightarrow> bool" where
  "js_whitespace c = (c \<in> set
     [0x0009, 0x000A, 0x000B, 0x000C, 0x000D, 0x0020, 0x00A0, 0x1680,
      0x2000, 0x2001, 0x2002, 0x2003, 0x2004, 0x2005, 0x2006, 0x2007, 0x2008, 0x2009, 0x200A,
      0x2028, 0x2029, 0x202F, 0x205F, 0x3000, 0xFEFF])"

definition js_trim :: "jsstring \<Rightarrow> jsstring" where
  "js_trim s = rev (dropWhile js_whitespace (rev (dropWhile js_whitespace s)))"

text \<open>
  The spread \<^verbatim>\<open>...(c && {k: v})\<close> inside an object literal: when \<open>c\<close> is truthy the
  properties of the literal are added; when it is falsy the spread is of \<open>c\<close> itself, a
  falsy primitive, which has no own enumerable property.
\<close>

definition spread_if :: "jsval \<Rightarrow> props \<Rightarrow> props" where
  "spread_if c ps = (if truthy c then ps else [])"

text \<open>
  The spread \<^verbatim>\<open>{ ...v }\<close> of an object or array \<open>v\<close> into a new object literal: its own
  enumerable properties, in order. The source reaches it only with \<open>v\<close> truthy and
  \<^verbatim>\<open>typeof v === "object"\<close>.
\<close>

fun spread :: "heap \<Rightarrow> jsval \<Rightarrow> props" where
  "spread h (JObject a) = obj_props h a"
| "spread h (JArray a) = obj_props h a"
| "spread h v = []"

section \<open>The response target\<close>

text \<open>
  Modelled from the spec: the response object belongs to the host framework, whose code
  is not in the repository. The spec gives it two capabilities, \<^verbatim>\<open>setStatus(code)\<close>
  and \<^verbatim>\<open>sendJson(envelope)\<close>, reached in the source as \<^verbatim>\<open>res.status(code)\<close> and
  \<^verbatim>\<open>res.json(body)\<close>. A call of either on a target whose property is a function is
  recorded in \<open>writes\<close> and returns the target (the source chains
  \<^verbatim>\<open>res.status(status).json(body)\<close>); a call on \<^verbatim>\<open>undefined\<close> or \<^verbatim>\<open>null\<close>, or of a
  property that is not a function, is JavaScript's TypeError.
\<close>

definition res_status :: "state \<Rightarrow> jsval \<Rightarrow> jsval \<Rightarrow> result" where
  "res_status st r code =
     (if nullish r \<or> typeof (get_prop (heap st) r (str ''status'')) \<noteq> ''function''
      then (Inl TypeError, st)
      else (Inr r, st\<lparr>writes := writes st @ [SetStatus code]\<rparr>))"

definition res_json :: "state \<Rightarrow> jsval \<Rightarrow> jsval \<Rightarrow> result" where
  "res_json st r body =
     (if nullish r \<or> typeof (get_prop (heap st) r (str ''json'')) \<noteq> ''function''
      then (Inl TypeError, st)
      else (Inr r, st\<lparr>writes := writes st @ [SendJson body]\<rparr>))"

section \<open>The class Jsend\<close>

record Jsend =
  res :: jsval

text \<open>
  The constructor: \<^verbatim>\<open>!res || typeof res.status !== "function" || typeof res.json !== "function"\<close>
  throws \<^verbatim>\<open>Error("Invalid Express response object provided.")\<close>, otherwise
  \<^verbatim>\<open>this.res = res\<close>. The reads of \<^verbatim>\<open>res.status\<close> and \<^verbatim>\<open>res.json\<close> happen only
  when \<^verbatim>\<open>res\<close> is truthy, hence not \<^verbatim>\<open>undefined\<close> or \<^verbatim>\<open>null\<close>.
\<close>

definition Jsend_constructor :: "state \<Rightarrow> jsval \<Rightarrow> (error + Jsend) \<times> state" where
  "Jsend_constructor st r =
     (if \<not> truthy r then (Inl InvalidResponseTarget, st)
      else if typeof (get_prop (heap st) r (str ''status'')) \<noteq> ''function''
      then (Inl InvalidResponseTarget, st)
      else if typeof (get_prop (heap st) r (str ''json'')) \<noteq> ''function''
      then (Inl InvalidResponseTarget, st)
      else (Inr \<lparr>res = r\<rparr>, st))"

text \<open>
  \<^verbatim>\<open>success(data = null, status = 200, statusLabel = "success")\<close> and
  \<^verbatim>\<open>fail(data = null, status = 400, statusLabel = "fail")\<close>. The guard
  \<^verbatim>\<open>data && typeof data !== "object"\<close> throws \<^verbatim>\<open>Error("Data must be an object or null.")\<close>.
  Then \<^verbatim>\<open>this.res.status(status)\<close> is called, the envelope \<^verbatim>\<open>{status: statusLabel, data}\<close>
  is created as a new object, and \<^verbatim>\<open>.json\<close> is called with it on what \<^verbatim>\<open>status\<close>
  returned.
\<close>

definition Jsend_success :: "state \<Rightarrow> Jsend \<Rightarrow> jsval \<Rightarrow> jsval \<Rightarrow> jsval \<Rightarrow> result" where
  "Jsend_success st this data0 status0 statusLabel0 =
     (let data = default_param data0 JNull;
          status = default_param status0 (JNum 200);
          statusLabel = default_param statusLabel0 (JStr (str ''success''))
      in if truthy data \<and> typeof data \<noteq> ''object''
         then (Inl InvalidDataKind, st)
         else (case res_status st (res this) status of
                 (Inl e, st1) \<Rightarrow> (Inl e, st1)
               | (Inr r1, st1) \<Rightarrow>
                   let envelope = JObject (length (heap st1));
                       st2 = st1\<lparr>heap := heap st1 @
                               [[(str ''status'', statusLabel), (str ''data'', data)]]\<rparr>
                   in res_json st2 r1 envelope))"

definition Jsend_fail :: "state \<Rightarrow> Jsend \<Rightarrow> jsval \<Rightarrow> jsval \<Rightarrow> jsval \<Rightarrow> result" where
  "Jsend_fail st this data0 status0 statusLabel0 =
     (let data = default_param data0 JNull;
          status = default_param status0 (JNum 400);
          statusLabel = default_param statusLabel0 (JStr (str ''fail''))
      in if truthy data \<and> typeof data \<noteq> ''object''
         then (Inl InvalidDataKind, st)
         else (case res_status st (res this) status of
                 (Inl e, st1) \<Rightarrow> (Inl e, st1)
               | (Inr r1, st1) \<Rightarrow>
                   let envelope = JObject (length (heap st1));
                       st2 = st1\<lparr>heap := heap st1 @
                               [[(str ''status'', statusLabel), (str ''data'', data)]]\<rparr>
                   in res_json st2 r1 envelope))"

text \<open>
  \<^verbatim>\<open>error(message = "Internal Server Error", status = 500, options = {}, statusLabel = "error")\<close>.
  The first guard, \<^verbatim>\<open>typeof message !== "string" || !message.trim()\<close>, throws
  \<^verbatim>\<open>Error("Error response must include a non-empty message string.")\<close>; the second,
  \<^verbatim>\<open>options.extra && typeof options.extra !== "object"\<close>, throws
  \<^verbatim>\<open>Error("Extra must be an object.")\<close>, and its read of \<^verbatim>\<open>options.extra\<close> is a
  TypeError when \<^verbatim>\<open>options\<close> is \<^verbatim>\<open>null\<close>. The envelope \<^verbatim>\<open>response\<close> is a new object
  and \<^verbatim>\<open>{ ...options.extra }\<close> a second one, created while the literal is evaluated;
  the literals \<^verbatim>\<open>{ code: ... }\<close>, \<^verbatim>\<open>{ details: ... }\<close> and \<^verbatim>\<open>{ extra: ... }\<close> are consumed
  by their spread and are not put on the heap.
\<close>

definition Jsend_error ::
  "state \<Rightarrow> Jsend \<Rightarrow> jsval \<Rightarrow> jsval \<Rightarrow> jsval \<Rightarrow> jsval \<Rightarrow> result" where
  "Jsend_error st this message0 status0 options0 statusLabel0 =
     (let message = default_param message0 (JStr (str ''Internal Server Error''));
          status = default_param status0 (JNum 500);
          statusLabel = default_param statusLabel0 (JStr (str ''error''))
      in if typeof message \<noteq> ''string''
            \<or> (case message of JStr s \<Rightarrow> \<not> truthy (JStr (js_trim s)) | _ \<Rightarrow> False)
         then (Inl InvalidMessage, st)
         else if options0 = JNull then (Inl TypeError, st)
         else
           let code = option_prop (heap st) options0 (str ''code'');
               details = option_prop (heap st) options0 (str ''details'');
               extra = option_prop (heap st) options0 (str ''extra'')
           in if truthy extra \<and> typeof extra \<noteq> ''object''
              then (Inl InvalidExtraKind, st)
              else
                let e = length (heap st);
                    response =
                      [(str ''status'', statusLabel), (str ''message'', message)]
                      @ spread_if code [(str ''code'', code)]
                      @ spread_if details [(str ''details'', details)]
                      @ spread_if extra [(str ''extra'', JObject (Suc e))];
                    st1 = st\<lparr>heap := heap st @ [response]
                            @ (if truthy extra then [spread (heap st) extra] else [])\<rparr>
                in (case res_status st1 (res this) status of
                      (Inl err, st2) \<Rightarrow> (Inl err, st2)
                    | (Inr r1, st2) \<Rightarrow> res_json st2 r1 (JObject e)))"

section \<open>The middleware\<close>

text \<open>
  \<^verbatim>\<open>jsendMiddleware(config = {})\<close> destructures the three labels, each with its default,
  and returns the function \<^verbatim>\<open>(req, res, next) => ...\<close>, which captures them.
  Destructuring \<^verbatim>\<open>null\<close> is a TypeError.
\<close>

record config =
  successLabel :: jsval
  failLabel :: jsval
  errorLabel :: jsval

definition jsendMiddleware :: "heap \<Rightarrow> jsval \<Rightarrow> error + config" where
  "jsendMiddleware h config0 =
     (if config0 = JNull then Inl TypeError
      else Inr \<lparr>
        successLabel = default_param (option_prop h config0 (str ''successLabel''))
                         (JStr (str ''success'')),
        failLabel = default_param (option_prop h config0 (str ''failLabel''))
                      (JStr (str ''fail'')),
        errorLabel = default_param (option_prop h config0 (str ''errorLabel''))
                       (JStr (str ''error''))\<rparr>)"

text \<open>
  The three arrow functions stored on \<^verbatim>\<open>res.jsend\<close>. Each takes the parameters it
  declares from the argument list and calls the method of a new \<^verbatim>\<open>Jsend(res)\<close> with the
  captured label:
  \<^verbatim>\<open>(data, status) => new Jsend(res).success(data, status, successLabel)\<close>,
  \<^verbatim>\<open>(data, status) => new Jsend(res).fail(data, status, failLabel)\<close>,
  \<^verbatim>\<open>(message, status, options) => new Jsend(res).error(message, status, options, errorLabel)\<close>.
\<close>

definition attached_success :: "jsval \<Rightarrow> jsval \<Rightarrow> state \<Rightarrow> jsval list \<Rightarrow> result" where
  "attached_success r label st args =
     (let data = arg args 0; status = arg args 1
      in case Jsend_constructor st r of
           (Inl e, st1) \<Rightarrow> (Inl e, st1)
         | (Inr this, st1) \<Rightarrow> Jsend_success st1 this data status label)"

definition attached_fail :: "jsval \<Rightarrow> jsval \<Rightarrow> state \<Rightarrow> jsval list \<Rightarrow> result" where
  "attached_fail r label st args =
     (let data = arg args 0; status = arg args 1
      in case Jsend_constructor st r of
           (Inl e, st1) \<Rightarrow> (Inl e, st1)
         | (Inr this, st1) \<Rightarrow> Jsend_fail st1 this data status label)"

definition attached_error :: "jsval \<Rightarrow> jsval \<Rightarrow> state \<Rightarrow> jsval list \<Rightarrow> result" where
  "attached_error r label st args =
     (let message = arg args 0; status = arg args 1; options = arg args 2
      in case Jsend_constructor st r of
           (Inl e, st1) \<Rightarrow> (Inl e, st1)
         | (Inr this, st1) \<Rightarrow> Jsend_error st1 this message status options label)"

text \<open>
  The function the middleware returns, for a configuration \<open>cfg\<close>:
  \<^verbatim>\<open>res.jsend = new Jsend(res)\<close>, then the three methods of that object are overridden
  by the arrow functions, then \<^verbatim>\<open>next()\<close> is called. The new objects are the Jsend
  instance (with its own property \<^verbatim>\<open>res\<close>) and the three functions.
\<close>

definition middleware :: "config \<Rightarrow> state \<Rightarrow> jsval \<Rightarrow> jsval \<Rightarrow> result" where
  "middleware cfg st req r =
     (case Jsend_constructor st r of
        (Inl e, st1) \<Rightarrow> (Inl e, st1)
      | (Inr this, st1) \<Rightarrow>
          let a = length (heap st1);
              jsend =
                [(str ''res'', res this),
                 (str ''success'', JFunction (AttachedSuccess r (successLabel cfg)) (a + 1)),
                 (str ''fail'', JFunction (AttachedFail r (failLabel cfg)) (a + 2)),
                 (str ''error'', JFunction (AttachedError r (errorLabel cfg)) (a + 3))];
              h1 = heap st1 @ [jsend, [], [], []];
              h2 = set_prop h1 r (str ''jsend'') (JObject a)
          in (Inr JUndefined, st1\<lparr>heap := h2, next_calls := next_calls st1 + 1\<rparr>))"

text \<open>
  A method call \<^verbatim>\<open>obj.k(args)\<close>. The body of a function of this repository is run;
  for a function of the host the result is \<open>None\<close>: its code is not here.
\<close>

fun closure_body :: "fcode \<Rightarrow> (state \<Rightarrow> jsval list \<Rightarrow> result) option" where
  "closure_body HostFunction = None"
| "closure_body (AttachedSuccess r label) = Some (attached_success r label)"
| "closure_body (AttachedFail r label) = Some (attached_fail r label)"
| "closure_body (AttachedError r label) = Some (attached_error r label)"

definition call_method :: "state \<Rightarrow> jsval \<Rightarrow> jsstring \<Rightarrow> jsval list \<Rightarrow> result option" where
  "call_method st obj k args =
     (if nullish obj then Some (Inl TypeError, st)
      else case get_prop (heap st) obj k of
             JFunction c a \<Rightarrow>
               (case closure_body c of Some body \<Rightarrow> Some (body st args) | None \<Rightarrow> None)
           | _ \<Rightarrow> Some (Inl TypeError, st))"

section \<open>Predicates and example states used in the statements\<close>

text \<open>
  A response target exposes both capabilities when its \<^verbatim>\<open>status\<close> and \<^verbatim>\<open>json\<close>
  properties are functions.
\<close>

definition valid_target :: "heap \<Rightarrow> jsval \<Rightarrow> bool" where
  "valid_target h r =
     (typeof (get_prop h r (str ''status'')) = ''function''
      \<and> typeof (get_prop h r (str ''json'')) = ''function'')"

text \<open>
  \<open>example_state\<close>: a heap with one response object (address 0) whose \<^verbatim>\<open>status\<close> and
  \<^verbatim>\<open>json\<close> are host functions (addresses 1 and 2), nothing written yet.
\<close>

definition example_state :: state where
  "example_state =
     \<lparr>heap = [[(str ''status'', JFunction HostFunction 1),
               (str ''json'', JFunction HostFunction 2)], [], []],
      writes = [], next_calls = 0\<rparr>"

text \<open>
  \<open>array_state\<close>: the same, with the array \<^verbatim>\<open>[1, 2]\<close> at address 3.
\<close>

definition array_state :: state where
  "array_state =
     \<lparr>heap = [[(str ''status'', JFunction HostFunction 1),
               (str ''json'', JFunction HostFunction 2)], [], [],
              [(str ''0'', JNum 1), (str ''1'', JNum 2)]],
      writes = [], next_calls = 0\<rparr>"

text \<open>
  A message the first guard of \<^verbatim>\<open>error\<close> lets through: a string that, trimmed, is not
  empty.
\<close>

fun valid_message :: "jsval \<Rightarrow> bool" where
  "valid_message (JStr s) = (js_trim s \<noteq> [])"
| "valid_message v = False"

text \<open>
  \<open>db_state\<close>: the response object, and at address 3 the options
  \<^verbatim>\<open>{code: "DB_ERR", details: {retryAfter: 60}, extra: {traceId: "abc123"}}\<close>.
\<close>

definition db_state :: state where
  "db_state =
     \<lparr>heap = [[(str ''status'', JFunction HostFunction 1),
               (str ''json'', JFunction HostFunction 2)], [], [],
              [(str ''code'', JStr (str ''DB_ERR'')),
               (str ''details'', JObject 4),
               (str ''extra'', JObject 5)],
              [(str ''retryAfter'', JNum 60)],
              [(str ''traceId'', JStr (str ''abc123''))]],
      writes = [], next_calls = 0\<rparr>"

text \<open>
  \<open>blank_extra_state\<close> and \<open>text_extra_state\<close>: the response object, and at address 3 the
  options \<^verbatim>\<open>{extra: ""}\<close> and \<^verbatim>\<open>{extra: "trace"}\<close>.
\<close>

definition blank_extra_state :: state where
  "blank_extra_state =
     \<lparr>heap = [[(str ''status'', JFunction HostFunction 1),
               (str ''json'', JFunction HostFunction 2)], [], [],
              [(str ''extra'', JStr [])]],
      writes = [], next_calls = 0\<rparr>"

definition text_extra_state :: state where
  "text_extra_state =
     \<lparr>heap = [[(str ''status'', JFunction HostFunction 1),
               (str ''json'', JFunction HostFunction 2)], [], [],
              [(str ''extra'', JStr (str ''trace''))]],
      writes = [], next_calls = 0\<rparr>"

text \<open>
  \<open>configured_state\<close>: the response object, and at address 3 the configuration
  \<^verbatim>\<open>{errorLabel: "exception"}\<close>; \<open>exception_config\<close>: the labels it resolves to;
  \<open>installed_state\<close>: the state after the middleware has run on the response object.
\<close>

definition configured_state :: state where
  "configured_state =
     \<lparr>heap = [[(str ''status'', JFunction HostFunction 1),
               (str ''json'', JFunction HostFunction 2)], [], [],
              [(str ''errorLabel'', JStr (str ''exception''))]],
      writes = [], next_calls = 0\<rparr>"

definition exception_config :: config where
  "exception_config =
     \<lparr>successLabel = JStr (str ''success''), failLabel = JStr (str ''fail''),
      errorLabel = JStr (str ''exception'')\<rparr>"

definition installed_state :: state where
  "installed_state =
     \<lparr>heap = [[(str ''status'', JFunction HostFunction 1),
               (str ''json'', JFunction HostFunction 2),
               (str ''jsend'', JObject 4)], [], [],
              [(str ''errorLabel'', JStr (str ''exception''))],
              [(str ''res'', JObject 0),
               (str ''success'', JFunction (AttachedSuccess (JObject 0) (JStr (str ''success''))) 5),
               (str ''fail'', JFunction (AttachedFail (JObject 0) (JStr (str ''fail''))) 6),
               (str ''error'', JFunction (AttachedError (JObject 0) (JStr (str ''exception''))) 7)],
              [], [], []],
      writes = [], next_calls = 1\<rparr>"

section \<open>Strings\<close>

lemma of_char_nat_less: "(of_char c :: nat) < 256"
proof -
  have "(of_char c :: nat) mod 256 = of_char c" by (rule of_char_mod_256)
  moreover have "(of_char c :: nat) mod 256 < 256" by simp
  ultimately show ?thesis by simp
qed

lemma unat_code_unit: "unat (word_of_nat (of_char c) :: 16 word) = of_char c"
proof -
  have "(of_char c :: nat) < 256" by (rule of_char_nat_less)
  also have "(256::nat) < 2 ^ 16" by simp
  finally have "(of_char c :: nat) < 2 ^ 16" .
  then show ?thesis by (simp add: unsigned_of_nat take_bit_nat_eq_self)
qed

lemma code_unit_eq_iff:
  "(word_of_nat (of_char c) :: 16 word) = word_of_nat (of_char d) \<longleftrightarrow> c = d"
proof
  assume "(word_of_nat (of_char c) :: 16 word) = word_of_nat (of_char d)"
  then have "unat (word_of_nat (of_char c) :: 16 word) = unat (word_of_nat (of_char d) :: 16 word)"
    by simp
  then have "(of_char c :: nat) = of_char d" by (simp only: unat_code_unit)
  then show "c = d" by simp
qed simp

lemma str_eq_iff [simp]: "str a = str b \<longleftrightarrow> a = b"
proof -
  have "inj (\<lambda>c. word_of_nat (of_char c) :: 16 word)"
    by (rule injI) (simp add: code_unit_eq_iff)
  then show ?thesis unfolding str_def by (simp add: inj_map_eq_map)
qed

lemma str_eq_Nil [simp]: "str s = [] \<longleftrightarrow> s = []"
  by (simp add: str_def)

section \<open>Reads, the response target and the constructor\<close>

lemma get_prop_primitive:
  "typeof (get_prop h r k) = ''function'' \<Longrightarrow> truthy r \<and> \<not> nullish r"
  by (cases r) (simp_all add: nullish_def)

lemma get_prop_append:
  "typeof (get_prop h r k) = ''function'' \<Longrightarrow> get_prop (h @ xs) r k = get_prop h r k"
  by (cases r) (auto simp: obj_props_def nth_append lookup_def split: if_splits)

lemma valid_target_truthy: "valid_target h r \<Longrightarrow> truthy r \<and> \<not> nullish r"
  unfolding valid_target_def using get_prop_primitive by blast

lemma valid_target_append: "valid_target h r \<Longrightarrow> valid_target (h @ xs) r"
  unfolding valid_target_def by (simp add: get_prop_append)

lemma res_status_valid:
  "valid_target (heap st) r \<Longrightarrow>
   res_status st r code = (Inr r, st\<lparr>writes := writes st @ [SetStatus code]\<rparr>)"
  using valid_target_truthy [of "heap st" r] by (simp add: res_status_def valid_target_def)

lemma res_json_valid:
  "valid_target (heap st) r \<Longrightarrow>
   res_json st r body = (Inr r, st\<lparr>writes := writes st @ [SendJson body]\<rparr>)"
  using valid_target_truthy [of "heap st" r] by (simp add: res_json_def valid_target_def)

lemma Jsend_constructor_valid:
  "valid_target (heap st) r \<Longrightarrow> Jsend_constructor st r = (Inr \<lparr>res = r\<rparr>, st)"
  using valid_target_truthy [of "heap st" r] by (simp add: Jsend_constructor_def valid_target_def)

section \<open>success and fail\<close>

lemma Jsend_success_emits:
  assumes "valid_target (heap st) (res this)"
    and "\<not> (truthy (default_param data0 JNull) \<and> typeof (default_param data0 JNull) \<noteq> ''object'')"
  shows "Jsend_success st this data0 status0 label0 =
    (Inr (res this),
     st\<lparr>heap := heap st @ [[(str ''status'', default_param label0 (JStr (str ''success''))),
                             (str ''data'', default_param data0 JNull)]],
        writes := writes st @ [SetStatus (default_param status0 (JNum 200)),
                               SendJson (JObject (length (heap st)))]\<rparr>)"
proof -
  let ?st1 = "st\<lparr>writes := writes st @ [SetStatus (default_param status0 (JNum 200))]\<rparr>"
  let ?st2 = "?st1\<lparr>heap := heap ?st1 @ [[(str ''status'', default_param label0 (JStr (str ''success''))),
                             (str ''data'', default_param data0 JNull)]]\<rparr>"
  have v2: "valid_target (heap ?st2) (res this)"
    using assms(1) by (simp add: valid_target_append)
  show ?thesis
    using assms(2) res_json_valid [OF v2]
    by (simp add: Jsend_success_def Let_def res_status_valid [OF assms(1)])
qed

lemma Jsend_fail_emits:
  assumes "valid_target (heap st) (res this)"
    and "\<not> (truthy (default_param data0 JNull) \<and> typeof (default_param data0 JNull) \<noteq> ''object'')"
  shows "Jsend_fail st this data0 status0 label0 =
    (Inr (res this),
     st\<lparr>heap := heap st @ [[(str ''status'', default_param label0 (JStr (str ''fail''))),
                             (str ''data'', default_param data0 JNull)]],
        writes := writes st @ [SetStatus (default_param status0 (JNum 400)),
                               SendJson (JObject (length (heap st)))]\<rparr>)"
proof -
  let ?st1 = "st\<lparr>writes := writes st @ [SetStatus (default_param status0 (JNum 400))]\<rparr>"
  let ?st2 = "?st1\<lparr>heap := heap ?st1 @ [[(str ''status'', default_param label0 (JStr (str ''fail''))),
                             (str ''data'', default_param data0 JNull)]]\<rparr>"
  have v2: "valid_target (heap ?st2) (res this)"
    using assms(1) by (simp add: valid_target_append)
  show ?thesis
    using assms(2) res_json_valid [OF v2]
    by (simp add: Jsend_fail_def Let_def res_status_valid [OF assms(1)])
qed

lemma example_target: "valid_target (heap example_state) (JObject 0)"
  by (simp add: valid_target_def example_state_def obj_props_def lookup_def)

lemma res_status_not_data_kind: "fst (res_status st r code) \<noteq> Inl InvalidDataKind"
  by (simp add: res_status_def)

lemma res_json_not_data_kind: "fst (res_json st r body) \<noteq> Inl InvalidDataKind"
  by (simp add: res_json_def)

lemma res_status_cases:
  "res_status st r code = (Inl TypeError, st)
   \<or> res_status st r code = (Inr r, st\<lparr>writes := writes st @ [SetStatus code]\<rparr>)"
  by (simp add: res_status_def)

lemma Jsend_success_raises_iff:
  "fst (Jsend_success st this data0 status0 label0) = Inl InvalidDataKind \<longleftrightarrow>
   truthy (default_param data0 JNull) \<and> typeof (default_param data0 JNull) \<noteq> ''object''"
proof (cases "truthy (default_param data0 JNull) \<and> typeof (default_param data0 JNull) \<noteq> ''object''")
  case True
  then show ?thesis by (simp add: Jsend_success_def Let_def)
next
  case False
  from res_status_cases [of st "res this" "default_param status0 (JNum 200)"]
  have "fst (Jsend_success st this data0 status0 label0) \<noteq> Inl InvalidDataKind"
  proof
    assume "res_status st (res this) (default_param status0 (JNum 200)) = (Inl TypeError, st)"
    with False show ?thesis by (simp add: Jsend_success_def Let_def)
  next
    assume "res_status st (res this) (default_param status0 (JNum 200)) =
      (Inr (res this), st\<lparr>writes := writes st @ [SetStatus (default_param status0 (JNum 200))]\<rparr>)"
    with False show ?thesis
      by (simp add: Jsend_success_def Let_def res_json_not_data_kind)
  qed
  with False show ?thesis by simp
qed

lemma Jsend_fail_raises_iff:
  "fst (Jsend_fail st this data0 status0 label0) = Inl InvalidDataKind \<longleftrightarrow>
   truthy (default_param data0 JNull) \<and> typeof (default_param data0 JNull) \<noteq> ''object''"
proof (cases "truthy (default_param data0 JNull) \<and> typeof (default_param data0 JNull) \<noteq> ''object''")
  case True
  then show ?thesis by (simp add: Jsend_fail_def Let_def)
next
  case False
  from res_status_cases [of st "res this" "default_param status0 (JNum 400)"]
  have "fst (Jsend_fail st this data0 status0 label0) \<noteq> Inl InvalidDataKind"
  proof
    assume "res_status st (res this) (default_param status0 (JNum 400)) = (Inl TypeError, st)"
    with False show ?thesis by (simp add: Jsend_fail_def Let_def)
  next
    assume "res_status st (res this) (default_param status0 (JNum 400)) =
      (Inr (res this), st\<lparr>writes := writes st @ [SetStatus (default_param status0 (JNum 400))]\<rparr>)"
    with False show ?thesis
      by (simp add: Jsend_fail_def Let_def res_json_not_data_kind)
  qed
  with False show ?thesis by simp
qed

lemma Jsend_success_rejects:
  "truthy data \<Longrightarrow> typeof data \<noteq> ''object'' \<Longrightarrow>
   Jsend_success st this data status0 label0 = (Inl InvalidDataKind, st)"
  by (cases data) (simp_all add: Jsend_success_def default_param_def)

lemma Jsend_fail_rejects:
  "truthy data \<Longrightarrow> typeof data \<noteq> ''object'' \<Longrightarrow>
   Jsend_fail st this data status0 label0 = (Inl InvalidDataKind, st)"
  by (cases data) (simp_all add: Jsend_fail_def default_param_def)

section \<open>error\<close>

lemma message_guard:
  "(typeof m \<noteq> ''string'' \<or> (case m of JStr s \<Rightarrow> \<not> truthy (JStr (js_trim s)) | _ \<Rightarrow> False))
   = (\<not> valid_message m)"
  by (cases m) simp_all

lemma dropWhile_all_iff: "(\<forall>c\<in>set (dropWhile P s). P c) \<longleftrightarrow> (\<forall>c\<in>set s. P c)"
proof
  assume a: "\<forall>c\<in>set (dropWhile P s). P c"
  have "dropWhile P s = []"
  proof (rule ccontr)
    assume n: "dropWhile P s \<noteq> []"
    then have "\<not> P (hd (dropWhile P s))" by (rule hd_dropWhile)
    moreover from n have "hd (dropWhile P s) \<in> set (dropWhile P s)" by simp
    ultimately show False using a by blast
  qed
  then show "\<forall>c\<in>set s. P c" by (simp add: dropWhile_eq_Nil_conv)
next
  assume "\<forall>c\<in>set s. P c"
  then show "\<forall>c\<in>set (dropWhile P s). P c" by (meson set_dropWhileD)
qed

lemma js_trim_empty_iff: "js_trim s = [] \<longleftrightarrow> (\<forall>c\<in>set s. js_whitespace c)"
proof -
  have "js_trim s = [] \<longleftrightarrow> (\<forall>c\<in>set (rev (dropWhile js_whitespace s)). js_whitespace c)"
    by (simp add: js_trim_def dropWhile_eq_Nil_conv)
  also have "\<dots> \<longleftrightarrow> (\<forall>c\<in>set (dropWhile js_whitespace s). js_whitespace c)" by simp
  also have "\<dots> \<longleftrightarrow> (\<forall>c\<in>set s. js_whitespace c)" by (rule dropWhile_all_iff)
  finally show ?thesis .
qed

lemma default_message_valid: "valid_message (JStr (str ''Internal Server Error''))"
  by (simp add: js_trim_def str_def js_whitespace_def)

lemma Jsend_error_invalid_message:
  "\<not> valid_message (default_param message0 (JStr (str ''Internal Server Error''))) \<Longrightarrow>
   Jsend_error st this message0 status0 options0 label0 = (Inl InvalidMessage, st)"
  unfolding Jsend_error_def Let_def message_guard by simp

lemma Jsend_error_null_options:
  "valid_message (default_param message0 (JStr (str ''Internal Server Error''))) \<Longrightarrow>
   Jsend_error st this message0 status0 JNull label0 = (Inl TypeError, st)"
  unfolding Jsend_error_def Let_def message_guard by simp

lemma Jsend_error_invalid_extra:
  "valid_message (default_param message0 (JStr (str ''Internal Server Error''))) \<Longrightarrow>
   truthy (option_prop (heap st) options0 (str ''extra'')) \<Longrightarrow>
   typeof (option_prop (heap st) options0 (str ''extra'')) \<noteq> ''object'' \<Longrightarrow>
   Jsend_error st this message0 status0 options0 label0 = (Inl InvalidExtraKind, st)"
  unfolding Jsend_error_def Let_def message_guard
  by (auto simp: option_prop_def)

lemma Jsend_error_emits:
  assumes v: "valid_target (heap st) (res this)"
    and m: "valid_message (default_param message0 (JStr (str ''Internal Server Error'')))"
    and n: "options0 \<noteq> JNull"
    and x: "\<not> (truthy (option_prop (heap st) options0 (str ''extra''))
              \<and> typeof (option_prop (heap st) options0 (str ''extra'')) \<noteq> ''object'')"
  shows "Jsend_error st this message0 status0 options0 label0 =
    (Inr (res this),
     st\<lparr>heap := heap st @
           [[(str ''status'', default_param label0 (JStr (str ''error''))),
             (str ''message'', default_param message0 (JStr (str ''Internal Server Error'')))]
            @ spread_if (option_prop (heap st) options0 (str ''code''))
                [(str ''code'', option_prop (heap st) options0 (str ''code''))]
            @ spread_if (option_prop (heap st) options0 (str ''details''))
                [(str ''details'', option_prop (heap st) options0 (str ''details''))]
            @ spread_if (option_prop (heap st) options0 (str ''extra''))
                [(str ''extra'', JObject (Suc (length (heap st))))]]
           @ (if truthy (option_prop (heap st) options0 (str ''extra''))
              then [spread (heap st) (option_prop (heap st) options0 (str ''extra''))] else []),
        writes := writes st @ [SetStatus (default_param status0 (JNum 500)),
                               SendJson (JObject (length (heap st)))]\<rparr>)"
proof -
  let ?new = "[[(str ''status'', default_param label0 (JStr (str ''error''))),
             (str ''message'', default_param message0 (JStr (str ''Internal Server Error'')))]
            @ spread_if (option_prop (heap st) options0 (str ''code''))
                [(str ''code'', option_prop (heap st) options0 (str ''code''))]
            @ spread_if (option_prop (heap st) options0 (str ''details''))
                [(str ''details'', option_prop (heap st) options0 (str ''details''))]
            @ spread_if (option_prop (heap st) options0 (str ''extra''))
                [(str ''extra'', JObject (Suc (length (heap st))))]]
           @ (if truthy (option_prop (heap st) options0 (str ''extra''))
              then [spread (heap st) (option_prop (heap st) options0 (str ''extra''))] else [])"
  let ?st1 = "st\<lparr>heap := heap st @ ?new\<rparr>"
  let ?st2 = "?st1\<lparr>writes := writes ?st1 @ [SetStatus (default_param status0 (JNum 500))]\<rparr>"
  have v1: "valid_target (heap ?st1) (res this)"
    using v valid_target_append [of "heap st" "res this" ?new] by simp
  then have v2: "valid_target (heap ?st2) (res this)" by simp
  have s: "res_status ?st1 (res this) (default_param status0 (JNum 500)) = (Inr (res this), ?st2)"
    by (rule res_status_valid [OF v1])
  have j: "res_json ?st2 (res this) (JObject (length (heap st))) =
      (Inr (res this), ?st2\<lparr>writes := writes ?st2 @ [SendJson (JObject (length (heap st)))]\<rparr>)"
    by (rule res_json_valid [OF v2])
  have "Jsend_error st this message0 status0 options0 label0 =
      (case res_status ?st1 (res this) (default_param status0 (JNum 500)) of
         (Inl err, st2) \<Rightarrow> (Inl err, st2)
       | (Inr r1, st2) \<Rightarrow> res_json st2 r1 (JObject (length (heap st))))"
    unfolding Jsend_error_def Let_def message_guard using m n x by auto
  also have "\<dots> = (Inr (res this), ?st2\<lparr>writes := writes ?st2 @ [SendJson (JObject (length (heap st)))]\<rparr>)"
    by (simp only: s j prod.case sum.case)
  finally show ?thesis by simp
qed

lemma res_status_error: "fst (res_status st r code) = Inl e \<Longrightarrow> e = TypeError"
  by (simp add: res_status_def split: if_splits)

lemma res_json_error: "fst (res_json st r body) = Inl e \<Longrightarrow> e = TypeError"
  by (simp add: res_json_def split: if_splits)

lemma Jsend_error_valid_message_error:
  assumes m: "valid_message (default_param message0 (JStr (str ''Internal Server Error'')))"
    and e: "fst (Jsend_error st this message0 status0 options0 label0) = Inl err"
  shows "err \<noteq> InvalidMessage"
proof -
  let ?x = "option_prop (heap st) options0 (str ''extra'')"
  consider (null) "options0 = JNull"
    | (bad) "options0 \<noteq> JNull" "truthy ?x \<and> typeof ?x \<noteq> ''object''"
    | (ok) "options0 \<noteq> JNull" "\<not> (truthy ?x \<and> typeof ?x \<noteq> ''object'')"
    by blast
  then show ?thesis
  proof cases
    case null
    with m e show ?thesis by (simp add: Jsend_error_null_options)
  next
    case bad
    with m e show ?thesis by (simp add: Jsend_error_invalid_extra)
  next
    case ok
    obtain st1 where d: "Jsend_error st this message0 status0 options0 label0 =
        (case res_status st1 (res this) (default_param status0 (JNum 500)) of
           (Inl err, st2) \<Rightarrow> (Inl err, st2)
         | (Inr r1, st2) \<Rightarrow> res_json st2 r1 (JObject (length (heap st))))"
      unfolding Jsend_error_def Let_def message_guard using m ok by auto
    obtain o1 s1 where r: "res_status st1 (res this) (default_param status0 (JNum 500)) = (o1, s1)"
      by (cases "res_status st1 (res this) (default_param status0 (JNum 500))")
    show ?thesis
    proof (cases o1)
      case (Inl a)
      with res_status_error [of st1 "res this" "default_param status0 (JNum 500)" a] r
      have "a = TypeError" by simp
      with e d r Inl show ?thesis by simp
    next
      case (Inr r1)
      with e d r have "fst (res_json s1 r1 (JObject (length (heap st)))) = Inl err" by simp
      then have "err = TypeError" by (rule res_json_error)
      then show ?thesis by simp
    qed
  qed
qed

section \<open>The attached operations\<close>

lemma attached_success_emits:
  assumes "valid_target (heap st) r"
    and "\<not> (truthy (default_param (arg args 0) JNull)
            \<and> typeof (default_param (arg args 0) JNull) \<noteq> ''object'')"
  shows "attached_success r label st args =
    (Inr r,
     st\<lparr>heap := heap st @ [[(str ''status'', default_param label (JStr (str ''success''))),
                             (str ''data'', default_param (arg args 0) JNull)]],
        writes := writes st @ [SetStatus (default_param (arg args 1) (JNum 200)),
                               SendJson (JObject (length (heap st)))]\<rparr>)"
  using Jsend_success_emits [of st "\<lparr>res = r\<rparr>" "arg args 0" "arg args 1" label] assms
  by (simp add: attached_success_def Jsend_constructor_valid)

lemma attached_fail_emits:
  assumes "valid_target (heap st) r"
    and "\<not> (truthy (default_param (arg args 0) JNull)
            \<and> typeof (default_param (arg args 0) JNull) \<noteq> ''object'')"
  shows "attached_fail r label st args =
    (Inr r,
     st\<lparr>heap := heap st @ [[(str ''status'', default_param label (JStr (str ''fail''))),
                             (str ''data'', default_param (arg args 0) JNull)]],
        writes := writes st @ [SetStatus (default_param (arg args 1) (JNum 400)),
                               SendJson (JObject (length (heap st)))]\<rparr>)"
  using Jsend_fail_emits [of st "\<lparr>res = r\<rparr>" "arg args 0" "arg args 1" label] assms
  by (simp add: attached_fail_def Jsend_constructor_valid)

lemma installed_target: "valid_target (heap installed_state) (JObject 0)"
  by (simp add: valid_target_def installed_state_def obj_props_def lookup_def)

lemma attached_error_emits:
  assumes "valid_target (heap st) r"
    and "valid_message (default_param (arg args 0) (JStr (str ''Internal Server Error'')))"
    and "arg args 2 \<noteq> JNull"
    and "\<not> (truthy (option_prop (heap st) (arg args 2) (str ''extra''))
            \<and> typeof (option_prop (heap st) (arg args 2) (str ''extra'')) \<noteq> ''object'')"
  shows "attached_error r label st args =
    (Inr r,
     st\<lparr>heap := heap st @
           [[(str ''status'', default_param label (JStr (str ''error''))),
             (str ''message'', default_param (arg args 0) (JStr (str ''Internal Server Error'')))]
            @ spread_if (option_prop (heap st) (arg args 2) (str ''code''))
                [(str ''code'', option_prop (heap st) (arg args 2) (str ''code''))]
            @ spread_if (option_prop (heap st) (arg args 2) (str ''details''))
                [(str ''details'', option_prop (heap st) (arg args 2) (str ''details''))]
            @ spread_if (option_prop (heap st) (arg args 2) (str ''extra''))
                [(str ''extra'', JObject (Suc (length (heap st))))]]
           @ (if truthy (option_prop (heap st) (arg args 2) (str ''extra''))
              then [spread (heap st) (option_prop (heap st) (arg args 2) (str ''extra''))] else []),
        writes := writes st @ [SetStatus (default_param (arg args 1) (JNum 500)),
                               SendJson (JObject (length (heap st)))]\<rparr>)"
proof -
  have v: "valid_target (heap st) (res \<lparr>res = r\<rparr>)" using assms(1) by simp
  show ?thesis
    using Jsend_error_emits [OF v assms(2) assms(3) assms(4), of "arg args 1" label]
    by (simp add: attached_error_def Let_def Jsend_constructor_valid [OF assms(1)])
qed

lemma configured_target: "valid_target (heap configured_state) (JObject 0)"
  by (simp add: valid_target_def configured_state_def obj_props_def lookup_def)

lemma installed_jsend:
  "get_prop (heap installed_state) (JObject 0) (str ''jsend'') = JObject 4"
  by (simp add: installed_state_def obj_props_def lookup_def)

lemma installed_methods:
  "get_prop (heap installed_state) (JObject 4) (str ''success'') =
     JFunction (AttachedSuccess (JObject 0) (JStr (str ''success''))) 5"
  "get_prop (heap installed_state) (JObject 4) (str ''fail'') =
     JFunction (AttachedFail (JObject 0) (JStr (str ''fail''))) 6"
  "get_prop (heap installed_state) (JObject 4) (str ''error'') =
     JFunction (AttachedError (JObject 0) (JStr (str ''exception''))) 7"
  by (simp_all add: installed_state_def obj_props_def lookup_def)

lemma installed_size:
  "length (heap installed_state) = 8" "writes installed_state = []"
  by (simp_all add: installed_state_def)

section \<open>The claims\<close>

text \<open>
  C1, as the code behaves. On a target with both capabilities and for data that is
  \<^verbatim>\<open>null\<close> or an object, the operations that the middleware attaches, called with
  data, a status code and a third argument meant as a per-call label, send
  \<^verbatim>\<open>{status: label, data}\<close> with the status code given (200, respectively 400, when it
  is \<^verbatim>\<open>undefined\<close>). The label is the configured one (or "success", respectively
  "fail", when that is \<^verbatim>\<open>undefined\<close>): the third argument does not reach the envelope.
\<close>

theorem attached_label_override_dropped:
  assumes "valid_target (heap st) r"
    and "typeof data = ''object''"
  shows "attached_success r label st [data, status, override] =
      (Inr r,
       st\<lparr>heap := heap st @ [[(str ''status'', default_param label (JStr (str ''success''))),
                               (str ''data'', data)]],
          writes := writes st @ [SetStatus (default_param status (JNum 200)),
                                 SendJson (JObject (length (heap st)))]\<rparr>)
    \<and> attached_fail r label st [data, status, override] =
      (Inr r,
       st\<lparr>heap := heap st @ [[(str ''status'', default_param label (JStr (str ''fail''))),
                               (str ''data'', data)]],
          writes := writes st @ [SetStatus (default_param status (JNum 400)),
                                 SendJson (JObject (length (heap st)))]\<rparr>)"
proof -
  have d: "default_param (arg [data, status, override] 0) JNull = data"
    using assms(2) by (auto simp: default_param_def arg_def)
  have s: "arg [data, status, override] 1 = status" by (simp add: arg_def)
  have x: "\<not> (truthy (default_param (arg [data, status, override] 0) JNull)
            \<and> typeof (default_param (arg [data, status, override] 0) JNull) \<noteq> ''object'')"
    using assms(2) d by simp
  show ?thesis
    using attached_success_emits [OF assms(1) x, of label]
      attached_fail_emits [OF assms(1) x, of label]
    by (simp only: d s)
qed

theorem attached_label_override_dropped_witness:
  "attached_success (JObject 0) (JStr (str ''success'')) installed_state
       [JNull, JNum 201, JStr (str ''ok'')] =
      (Inr (JObject 0),
       installed_state\<lparr>heap := heap installed_state @
                           [[(str ''status'', JStr (str ''success'')), (str ''data'', JNull)]],
          writes := [SetStatus (JNum 201), SendJson (JObject 8)]\<rparr>)
    \<and> attached_fail (JObject 0) (JStr (str ''fail'')) installed_state
       [JNull, JNum 422, JStr (str ''invalid'')] =
      (Inr (JObject 0),
       installed_state\<lparr>heap := heap installed_state @
                           [[(str ''status'', JStr (str ''fail'')), (str ''data'', JNull)]],
          writes := [SetStatus (JNum 422), SendJson (JObject 8)]\<rparr>)"
proof -
  have t: "typeof JNull = ''object''" by simp
  have l: "length (heap installed_state) = 8" and w: "writes installed_state = []"
    by (simp_all add: installed_state_def)
  show ?thesis
    using attached_label_override_dropped
            [OF installed_target t, of "JStr (str ''success'')" "JNum 201" "JStr (str ''ok'')",
             THEN conjunct1]
          attached_label_override_dropped
            [OF installed_target t, of "JStr (str ''fail'')" "JNum 422" "JStr (str ''invalid'')",
             THEN conjunct2]
    by (simp add: default_param_def l w)
qed

text \<open>
  C2, as the code behaves. A falsy data value other than \<^verbatim>\<open>undefined\<close> (0, NaN, the
  empty string, \<^verbatim>\<open>false\<close>, 0n, \<^verbatim>\<open>null\<close>) passes the guard of success and fail:
  nothing is raised, and the value is sent as the envelope's \<^verbatim>\<open>data\<close>.
\<close>

theorem falsy_primitive_data_accepted:
  assumes "valid_target (heap st) (res this)"
    and "\<not> truthy data" and "data \<noteq> JUndefined"
  shows "Jsend_success st this data status0 label0 =
      (Inr (res this),
       st\<lparr>heap := heap st @ [[(str ''status'', default_param label0 (JStr (str ''success''))),
                               (str ''data'', data)]],
          writes := writes st @ [SetStatus (default_param status0 (JNum 200)),
                                 SendJson (JObject (length (heap st)))]\<rparr>)
    \<and> Jsend_fail st this data status0 label0 =
      (Inr (res this),
       st\<lparr>heap := heap st @ [[(str ''status'', default_param label0 (JStr (str ''fail''))),
                               (str ''data'', data)]],
          writes := writes st @ [SetStatus (default_param status0 (JNum 400)),
                                 SendJson (JObject (length (heap st)))]\<rparr>)"
proof -
  have d: "default_param data JNull = data"
    using assms(3) by (simp add: default_param_def)
  have x: "\<not> (truthy (default_param data JNull) \<and> typeof (default_param data JNull) \<noteq> ''object'')"
    using assms(2) d by simp
  show ?thesis
    using Jsend_success_emits [OF assms(1) x, of status0 label0]
      Jsend_fail_emits [OF assms(1) x, of status0 label0]
    by (simp only: d)
qed

theorem falsy_primitive_data_accepted_witness:
  "Jsend_success example_state \<lparr>res = JObject 0\<rparr> (JNum 0) JUndefined JUndefined =
      (Inr (JObject 0),
       example_state\<lparr>heap := heap example_state @
                         [[(str ''status'', JStr (str ''success'')), (str ''data'', JNum 0)]],
          writes := [SetStatus (JNum 200), SendJson (JObject 3)]\<rparr>)
   \<and> Jsend_fail example_state \<lparr>res = JObject 0\<rparr> (JStr []) JUndefined JUndefined =
      (Inr (JObject 0),
       example_state\<lparr>heap := heap example_state @
                         [[(str ''status'', JStr (str ''fail'')), (str ''data'', JStr [])]],
          writes := [SetStatus (JNum 400), SendJson (JObject 3)]\<rparr>)
   \<and> Jsend_success example_state \<lparr>res = JObject 0\<rparr> (JBool False) JUndefined JUndefined =
      (Inr (JObject 0),
       example_state\<lparr>heap := heap example_state @
                         [[(str ''status'', JStr (str ''success'')), (str ''data'', JBool False)]],
          writes := [SetStatus (JNum 200), SendJson (JObject 3)]\<rparr>)"
proof -
  have v: "valid_target (heap example_state) (res \<lparr>res = JObject 0\<rparr>)"
    using example_target by simp
  have l: "length (heap example_state) = 3" and w: "writes example_state = []"
    by (simp_all add: example_state_def)
  show ?thesis
    using falsy_primitive_data_accepted [OF v, of "JNum 0" JUndefined JUndefined, THEN conjunct1]
      falsy_primitive_data_accepted [OF v, of "JStr []" JUndefined JUndefined, THEN conjunct2]
      falsy_primitive_data_accepted [OF v, of "JBool False" JUndefined JUndefined, THEN conjunct1]
    by (simp add: default_param_def l w)
qed

text \<open>
  C3. With a valid message, options that are not \<^verbatim>\<open>null\<close> and an \<^verbatim>\<open>extra\<close> that is falsy
  or an object, error sends an envelope that holds \<^verbatim>\<open>status\<close> and \<^verbatim>\<open>message\<close>, then
  \<^verbatim>\<open>code\<close> exactly when \<^verbatim>\<open>options.code\<close> is truthy, \<^verbatim>\<open>details\<close> exactly when
  \<^verbatim>\<open>options.details\<close> is truthy (both verbatim), and \<^verbatim>\<open>extra\<close>, a new object with the
  properties of \<^verbatim>\<open>options.extra\<close>, exactly when that is truthy; the status code is the
  one given, or 500. The two calls of the claim are evaluated after the theorem.
\<close>

theorem error_envelope_presence_conditional:
  assumes "valid_target (heap st) (res this)"
    and "valid_message (default_param message0 (JStr (str ''Internal Server Error'')))"
    and "options0 \<noteq> JNull"
    and "code = option_prop (heap st) options0 (str ''code'')"
    and "details = option_prop (heap st) options0 (str ''details'')"
    and "extra = option_prop (heap st) options0 (str ''extra'')"
    and "truthy extra \<Longrightarrow> typeof extra = ''object''"
  shows "Jsend_error st this message0 status0 options0 label0 =
    (Inr (res this),
     st\<lparr>heap := heap st @
           [[(str ''status'', default_param label0 (JStr (str ''error''))),
             (str ''message'', default_param message0 (JStr (str ''Internal Server Error'')))]
            @ (if truthy code then [(str ''code'', code)] else [])
            @ (if truthy details then [(str ''details'', details)] else [])
            @ (if truthy extra then [(str ''extra'', JObject (Suc (length (heap st))))] else [])]
           @ (if truthy extra then [spread (heap st) extra] else []),
        writes := writes st @ [SetStatus (default_param status0 (JNum 500)),
                               SendJson (JObject (length (heap st)))]\<rparr>)"
proof -
  have x: "\<not> (truthy (option_prop (heap st) options0 (str ''extra''))
              \<and> typeof (option_prop (heap st) options0 (str ''extra'')) \<noteq> ''object'')"
    using assms(6,7) by blast
  show ?thesis
    unfolding assms(4,5,6)
    using Jsend_error_emits [OF assms(1) assms(2) assms(3) x, of status0 label0]
    by (simp only: spread_if_def)
qed

theorem error_envelope_presence_conditional_witness:
  "Jsend_error db_state \<lparr>res = JObject 0\<rparr> (JStr (str ''DB down'')) (JNum 500) (JObject 3) JUndefined =
     (Inr (JObject 0),
      db_state\<lparr>heap := heap db_state @
          [[(str ''status'', JStr (str ''error'')),
            (str ''message'', JStr (str ''DB down'')),
            (str ''code'', JStr (str ''DB_ERR'')),
            (str ''details'', JObject 4),
            (str ''extra'', JObject 7)],
           [(str ''traceId'', JStr (str ''abc123''))]],
        writes := [SetStatus (JNum 500), SendJson (JObject 6)]\<rparr>)
   \<and> Jsend_error example_state \<lparr>res = JObject 0\<rparr> (JStr (str ''Oops'')) JUndefined JUndefined JUndefined =
     (Inr (JObject 0),
      example_state\<lparr>heap := heap example_state @
          [[(str ''status'', JStr (str ''error'')),
            (str ''message'', JStr (str ''Oops''))]],
        writes := [SetStatus (JNum 500), SendJson (JObject 3)]\<rparr>)"
proof
  have v: "valid_target (heap db_state) (res \<lparr>res = JObject 0\<rparr>)"
    by (simp add: valid_target_def db_state_def obj_props_def lookup_def)
  have m: "valid_message (default_param (JStr (str ''DB down'')) (JStr (str ''Internal Server Error'')))"
    by (simp add: default_param_def js_trim_def str_def js_whitespace_def)
  have c: "JStr (str ''DB_ERR'') = option_prop (heap db_state) (JObject 3) (str ''code'')"
    and d: "JObject 4 = option_prop (heap db_state) (JObject 3) (str ''details'')"
    and x: "JObject 5 = option_prop (heap db_state) (JObject 3) (str ''extra'')"
    by (simp_all add: option_prop_def db_state_def obj_props_def lookup_def)
  have l: "length (heap db_state) = 6" and w: "writes db_state = []"
    and s: "obj_props (heap db_state) 5 = [(str ''traceId'', JStr (str ''abc123''))]"
    by (simp_all add: db_state_def obj_props_def)
  show "Jsend_error db_state \<lparr>res = JObject 0\<rparr> (JStr (str ''DB down'')) (JNum 500) (JObject 3) JUndefined =
     (Inr (JObject 0),
      db_state\<lparr>heap := heap db_state @
          [[(str ''status'', JStr (str ''error'')),
            (str ''message'', JStr (str ''DB down'')),
            (str ''code'', JStr (str ''DB_ERR'')),
            (str ''details'', JObject 4),
            (str ''extra'', JObject 7)],
           [(str ''traceId'', JStr (str ''abc123''))]],
        writes := [SetStatus (JNum 500), SendJson (JObject 6)]\<rparr>)"
    using error_envelope_presence_conditional [OF v m _ c d x, of "JNum 500" JUndefined]
    by (simp add: default_param_def l w s)
next
  have v: "valid_target (heap example_state) (res \<lparr>res = JObject 0\<rparr>)"
    using example_target by simp
  have m: "valid_message (default_param (JStr (str ''Oops'')) (JStr (str ''Internal Server Error'')))"
    by (simp add: default_param_def js_trim_def str_def js_whitespace_def)
  have c: "JUndefined = option_prop (heap example_state) JUndefined (str ''code'')"
    and d: "JUndefined = option_prop (heap example_state) JUndefined (str ''details'')"
    and x: "JUndefined = option_prop (heap example_state) JUndefined (str ''extra'')"
    by (simp_all add: option_prop_def)
  have l: "length (heap example_state) = 3" and w: "writes example_state = []"
    by (simp_all add: example_state_def)
  show "Jsend_error example_state \<lparr>res = JObject 0\<rparr> (JStr (str ''Oops'')) JUndefined JUndefined JUndefined =
     (Inr (JObject 0),
      example_state\<lparr>heap := heap example_state @
          [[(str ''status'', JStr (str ''error'')),
            (str ''message'', JStr (str ''Oops''))]],
        writes := [SetStatus (JNum 500), SendJson (JObject 3)]\<rparr>)"
    using error_envelope_presence_conditional [OF v m _ c d x, of JUndefined JUndefined]
    by (simp add: default_param_def l w)
qed

text \<open>
  C4, amended. error raises InvalidMessage, and leaves the state as it was, whenever its
  message argument is given (not \<^verbatim>\<open>undefined\<close>) and is not a string or is a string of
  white space only. A missing message takes the default "Internal Server Error": the
  call is the call with that message, and never raises InvalidMessage.
\<close>

theorem error_rejects_invalid_message:
  "(message0 \<noteq> JUndefined
      \<and> (typeof message0 \<noteq> ''string''
          \<or> (\<exists>s. message0 = JStr s \<and> (\<forall>c\<in>set s. js_whitespace c)))
    \<longrightarrow> Jsend_error st this message0 status0 options0 label0 = (Inl InvalidMessage, st))
   \<and> Jsend_error st this JUndefined status0 options0 label0 =
       Jsend_error st this (JStr (str ''Internal Server Error'')) status0 options0 label0
   \<and> fst (Jsend_error st this JUndefined status0 options0 label0) \<noteq> Inl InvalidMessage"
proof (intro conjI impI)
  assume a: "message0 \<noteq> JUndefined
      \<and> (typeof message0 \<noteq> ''string''
          \<or> (\<exists>s. message0 = JStr s \<and> (\<forall>c\<in>set s. js_whitespace c)))"
  then have "\<not> valid_message message0"
    by (cases message0) (auto simp: js_trim_empty_iff)
  with a have "\<not> valid_message (default_param message0 (JStr (str ''Internal Server Error'')))"
    by (simp add: default_param_def)
  then show "Jsend_error st this message0 status0 options0 label0 = (Inl InvalidMessage, st)"
    by (rule Jsend_error_invalid_message)
next
  show "Jsend_error st this JUndefined status0 options0 label0 =
       Jsend_error st this (JStr (str ''Internal Server Error'')) status0 options0 label0"
    by (simp add: Jsend_error_def default_param_def)
next
  have "valid_message (default_param JUndefined (JStr (str ''Internal Server Error'')))"
    using default_message_valid by (simp add: default_param_def)
  then show "fst (Jsend_error st this JUndefined status0 options0 label0) \<noteq> Inl InvalidMessage"
    using Jsend_error_valid_message_error by blast
qed

theorem error_rejects_invalid_message_witness:
  "Jsend_error example_state \<lparr>res = JObject 0\<rparr> (JStr (str ''   '')) JUndefined JUndefined JUndefined
     = (Inl InvalidMessage, example_state)
   \<and> Jsend_error example_state \<lparr>res = JObject 0\<rparr> (JStr []) JUndefined JUndefined JUndefined
     = (Inl InvalidMessage, example_state)
   \<and> Jsend_error example_state \<lparr>res = JObject 0\<rparr> (JNum 42) JUndefined JUndefined JUndefined
     = (Inl InvalidMessage, example_state)
   \<and> Jsend_error example_state \<lparr>res = JObject 0\<rparr> JNull JUndefined JUndefined JUndefined
     = (Inl InvalidMessage, example_state)"
proof -
  have b: "\<forall>c\<in>set (str ''   ''). js_whitespace c"
    by (simp add: str_def js_whitespace_def)
  show ?thesis
    using error_rejects_invalid_message
            [of "JStr (str ''   '')" example_state "\<lparr>res = JObject 0\<rparr>" JUndefined JUndefined JUndefined]
          error_rejects_invalid_message
            [of "JStr []" example_state "\<lparr>res = JObject 0\<rparr>" JUndefined JUndefined JUndefined]
          error_rejects_invalid_message
            [of "JNum 42" example_state "\<lparr>res = JObject 0\<rparr>" JUndefined JUndefined JUndefined]
          error_rejects_invalid_message
            [of JNull example_state "\<lparr>res = JObject 0\<rparr>" JUndefined JUndefined JUndefined]
          b
    by simp
qed

text \<open>
  The claim as stated fails for a missing message: \<^verbatim>\<open>error()\<close> sends the envelope with
  the default message and status 500.
\<close>

theorem error_missing_message_counterexample:
  "Jsend_error example_state \<lparr>res = JObject 0\<rparr> JUndefined JUndefined JUndefined JUndefined =
     (Inr (JObject 0),
      example_state\<lparr>heap := heap example_state @
          [[(str ''status'', JStr (str ''error'')),
            (str ''message'', JStr (str ''Internal Server Error''))]],
        writes := [SetStatus (JNum 500), SendJson (JObject 3)]\<rparr>)"
proof -
  have v: "valid_target (heap example_state) (res \<lparr>res = JObject 0\<rparr>)"
    using example_target by simp
  have m: "valid_message (default_param JUndefined (JStr (str ''Internal Server Error'')))"
    using default_message_valid by (simp add: default_param_def)
  have x: "\<not> (truthy (option_prop (heap example_state) JUndefined (str ''extra''))
              \<and> typeof (option_prop (heap example_state) JUndefined (str ''extra'')) \<noteq> ''object'')"
    by (simp add: option_prop_def)
  have l: "length (heap example_state) = 3" and w: "writes example_state = []"
    by (simp_all add: example_state_def)
  show ?thesis
    using Jsend_error_emits [OF v m _ x, of JUndefined JUndefined]
    by (simp add: default_param_def option_prop_def spread_if_def l w)
qed

text \<open>
  C5, amended. With a valid message, error raises InvalidExtraKind, and leaves the state
  as it was, whenever \<^verbatim>\<open>options.extra\<close> is truthy and not of type object; a falsy
  \<^verbatim>\<open>options.extra\<close> (such as the empty string) counts as absent and never raises
  InvalidExtraKind.
\<close>

theorem error_rejects_truthy_non_object_extra:
  assumes "valid_message (default_param message0 (JStr (str ''Internal Server Error'')))"
    and "extra = option_prop (heap st) options0 (str ''extra'')"
  shows "(truthy extra \<and> typeof extra \<noteq> ''object'' \<longrightarrow>
            Jsend_error st this message0 status0 options0 label0 = (Inl InvalidExtraKind, st))
         \<and> (\<not> truthy extra \<longrightarrow>
            fst (Jsend_error st this message0 status0 options0 label0) \<noteq> Inl InvalidExtraKind)"
proof (intro conjI impI)
  assume "truthy extra \<and> typeof extra \<noteq> ''object''"
  then show "Jsend_error st this message0 status0 options0 label0 = (Inl InvalidExtraKind, st)"
    using assms Jsend_error_invalid_extra by blast
next
  assume f: "\<not> truthy extra"
  show "fst (Jsend_error st this message0 status0 options0 label0) \<noteq> Inl InvalidExtraKind"
  proof (cases "options0 = JNull")
    case True
    with assms(1) show ?thesis by (simp add: Jsend_error_null_options)
  next
    case False
    obtain st1 where d: "Jsend_error st this message0 status0 options0 label0 =
        (case res_status st1 (res this) (default_param status0 (JNum 500)) of
           (Inl err, st2) \<Rightarrow> (Inl err, st2)
         | (Inr r1, st2) \<Rightarrow> res_json st2 r1 (JObject (length (heap st))))"
      unfolding Jsend_error_def Let_def message_guard using assms f False by auto
    obtain o1 s1 where r: "res_status st1 (res this) (default_param status0 (JNum 500)) = (o1, s1)"
      by (cases "res_status st1 (res this) (default_param status0 (JNum 500))")
    show ?thesis
    proof (cases o1)
      case (Inl a)
      with res_status_error [of st1 "res this" "default_param status0 (JNum 500)" a] r
      have "a = TypeError" by simp
      with d r Inl show ?thesis by simp
    next
      case (Inr r1)
      show ?thesis
      proof
        assume "fst (Jsend_error st this message0 status0 options0 label0) = Inl InvalidExtraKind"
        with d r Inr have "fst (res_json s1 r1 (JObject (length (heap st)))) = Inl InvalidExtraKind"
          by simp
        then have "InvalidExtraKind = TypeError" by (rule res_json_error)
        then show False by simp
      qed
    qed
  qed
qed

theorem error_rejects_truthy_non_object_extra_witness:
  "Jsend_error text_extra_state \<lparr>res = JObject 0\<rparr> (JStr (str ''x'')) (JNum 500) (JObject 3) JUndefined
     = (Inl InvalidExtraKind, text_extra_state)
   \<and> fst (Jsend_error blank_extra_state \<lparr>res = JObject 0\<rparr> (JStr (str ''x'')) (JNum 500) (JObject 3)
            JUndefined) \<noteq> Inl InvalidExtraKind"
proof
  have m: "valid_message (default_param (JStr (str ''x'')) (JStr (str ''Internal Server Error'')))"
    by (simp add: default_param_def js_trim_def str_def js_whitespace_def)
  have x: "JStr (str ''trace'') = option_prop (heap text_extra_state) (JObject 3) (str ''extra'')"
    by (simp add: option_prop_def text_extra_state_def obj_props_def lookup_def)
  show "Jsend_error text_extra_state \<lparr>res = JObject 0\<rparr> (JStr (str ''x'')) (JNum 500) (JObject 3) JUndefined
     = (Inl InvalidExtraKind, text_extra_state)"
    using error_rejects_truthy_non_object_extra [OF m x, of "\<lparr>res = JObject 0\<rparr>" "JNum 500" JUndefined]
    by simp
next
  have m: "valid_message (default_param (JStr (str ''x'')) (JStr (str ''Internal Server Error'')))"
    by (simp add: default_param_def js_trim_def str_def js_whitespace_def)
  have x: "JStr [] = option_prop (heap blank_extra_state) (JObject 3) (str ''extra'')"
    by (simp add: option_prop_def blank_extra_state_def obj_props_def lookup_def)
  show "fst (Jsend_error blank_extra_state \<lparr>res = JObject 0\<rparr> (JStr (str ''x'')) (JNum 500) (JObject 3)
            JUndefined) \<noteq> Inl InvalidExtraKind"
    using error_rejects_truthy_non_object_extra [OF m x, of "\<lparr>res = JObject 0\<rparr>" "JNum 500" JUndefined]
    by simp
qed

text \<open>
  The claim as stated fails for \<^verbatim>\<open>error("x", 500, {extra: ""})\<close>: the extra field is
  present and a string, nothing is raised, and the envelope is sent without \<^verbatim>\<open>extra\<close>.
\<close>

theorem error_blank_extra_counterexample:
  "Jsend_error blank_extra_state \<lparr>res = JObject 0\<rparr> (JStr (str ''x'')) (JNum 500) (JObject 3) JUndefined =
     (Inr (JObject 0),
      blank_extra_state\<lparr>heap := heap blank_extra_state @
          [[(str ''status'', JStr (str ''error'')),
            (str ''message'', JStr (str ''x''))]],
        writes := [SetStatus (JNum 500), SendJson (JObject 4)]\<rparr>)"
proof -
  have v: "valid_target (heap blank_extra_state) (res \<lparr>res = JObject 0\<rparr>)"
    by (simp add: valid_target_def blank_extra_state_def obj_props_def lookup_def)
  have m: "valid_message (default_param (JStr (str ''x'')) (JStr (str ''Internal Server Error'')))"
    by (simp add: default_param_def js_trim_def str_def js_whitespace_def)
  have p: "option_prop (heap blank_extra_state) (JObject 3) (str ''extra'') = JStr []"
    "option_prop (heap blank_extra_state) (JObject 3) (str ''code'') = JUndefined"
    "option_prop (heap blank_extra_state) (JObject 3) (str ''details'') = JUndefined"
    by (simp_all add: option_prop_def blank_extra_state_def obj_props_def lookup_def)
  have x: "\<not> (truthy (option_prop (heap blank_extra_state) (JObject 3) (str ''extra''))
              \<and> typeof (option_prop (heap blank_extra_state) (JObject 3) (str ''extra'')) \<noteq> ''object'')"
    by (simp add: p)
  have l: "length (heap blank_extra_state) = 4" and w: "writes blank_extra_state = []"
    by (simp_all add: blank_extra_state_def)
  show ?thesis
    using Jsend_error_emits [OF v m _ x, of "JNum 500" JUndefined]
    by (simp add: default_param_def p spread_if_def l w)
qed

text \<open>
  C6, as the code behaves. With the configuration \<^verbatim>\<open>{errorLabel: "exception"}\<close> the
  middleware resolves the three labels and attaches the three operations to the response
  object. \<^verbatim>\<open>res.jsend.error("x")\<close> sends \<^verbatim>\<open>status: "exception"\<close>, the configured label.
  A label passed on the call does not reach the envelope:
  \<^verbatim>\<open>res.jsend.error("x", 503, undefined, "fatal")\<close> sends "exception",
  \<^verbatim>\<open>res.jsend.success(null, 201, "ok")\<close> sends "success" and
  \<^verbatim>\<open>res.jsend.fail(null, 422, "invalid")\<close> sends "fail".
\<close>

theorem installed_operations_drop_explicit_label:
  "jsendMiddleware (heap configured_state) (JObject 3) = Inr exception_config
   \<and> middleware exception_config configured_state JUndefined (JObject 0) =
       (Inr JUndefined, installed_state)
   \<and> call_method installed_state (get_prop (heap installed_state) (JObject 0) (str ''jsend''))
       (str ''error'') [JStr (str ''x'')] =
       Some (Inr (JObject 0),
             installed_state\<lparr>heap := heap installed_state @
                  [[(str ''status'', JStr (str ''exception'')), (str ''message'', JStr (str ''x''))]],
                writes := [SetStatus (JNum 500), SendJson (JObject 8)]\<rparr>)
   \<and> call_method installed_state (get_prop (heap installed_state) (JObject 0) (str ''jsend''))
       (str ''error'') [JStr (str ''x''), JNum 503, JUndefined, JStr (str ''fatal'')] =
       Some (Inr (JObject 0),
             installed_state\<lparr>heap := heap installed_state @
                  [[(str ''status'', JStr (str ''exception'')), (str ''message'', JStr (str ''x''))]],
                writes := [SetStatus (JNum 503), SendJson (JObject 8)]\<rparr>)
   \<and> call_method installed_state (get_prop (heap installed_state) (JObject 0) (str ''jsend''))
       (str ''success'') [JNull, JNum 201, JStr (str ''ok'')] =
       Some (Inr (JObject 0),
             installed_state\<lparr>heap := heap installed_state @
                  [[(str ''status'', JStr (str ''success'')), (str ''data'', JNull)]],
                writes := [SetStatus (JNum 201), SendJson (JObject 8)]\<rparr>)
   \<and> call_method installed_state (get_prop (heap installed_state) (JObject 0) (str ''jsend''))
       (str ''fail'') [JNull, JNum 422, JStr (str ''invalid'')] =
       Some (Inr (JObject 0),
             installed_state\<lparr>heap := heap installed_state @
                  [[(str ''status'', JStr (str ''fail'')), (str ''data'', JNull)]],
                writes := [SetStatus (JNum 422), SendJson (JObject 8)]\<rparr>)"
proof (intro conjI)
  show "jsendMiddleware (heap configured_state) (JObject 3) = Inr exception_config"
    by (simp add: jsendMiddleware_def exception_config_def option_prop_def configured_state_def
        obj_props_def lookup_def default_param_def)
  show "middleware exception_config configured_state JUndefined (JObject 0) =
       (Inr JUndefined, installed_state)"
    by (simp add: middleware_def Jsend_constructor_valid [OF configured_target] Let_def)
       (simp add: configured_state_def installed_state_def exception_config_def)
  have m: "valid_message (default_param (JStr (str ''x'')) (JStr (str ''Internal Server Error'')))"
    by (simp add: default_param_def js_trim_def str_def js_whitespace_def)
  show "call_method installed_state (get_prop (heap installed_state) (JObject 0) (str ''jsend''))
       (str ''error'') [JStr (str ''x'')] =
       Some (Inr (JObject 0),
             installed_state\<lparr>heap := heap installed_state @
                  [[(str ''status'', JStr (str ''exception'')), (str ''message'', JStr (str ''x''))]],
                writes := [SetStatus (JNum 500), SendJson (JObject 8)]\<rparr>)"
    using attached_error_emits [of installed_state "JObject 0" "[JStr (str ''x'')]"
        "JStr (str ''exception'')"] installed_target m
    by (simp del: get_prop.simps add: call_method_def nullish_def installed_jsend installed_methods installed_size
        arg_def option_prop_def default_param_def spread_if_def)
  show "call_method installed_state (get_prop (heap installed_state) (JObject 0) (str ''jsend''))
       (str ''error'') [JStr (str ''x''), JNum 503, JUndefined, JStr (str ''fatal'')] =
       Some (Inr (JObject 0),
             installed_state\<lparr>heap := heap installed_state @
                  [[(str ''status'', JStr (str ''exception'')), (str ''message'', JStr (str ''x''))]],
                writes := [SetStatus (JNum 503), SendJson (JObject 8)]\<rparr>)"
    using attached_error_emits [of installed_state "JObject 0"
        "[JStr (str ''x''), JNum 503, JUndefined, JStr (str ''fatal'')]"
        "JStr (str ''exception'')"] installed_target m
    by (simp del: get_prop.simps add: call_method_def nullish_def installed_jsend installed_methods installed_size
        arg_def option_prop_def default_param_def spread_if_def)
  show "call_method installed_state (get_prop (heap installed_state) (JObject 0) (str ''jsend''))
       (str ''success'') [JNull, JNum 201, JStr (str ''ok'')] =
       Some (Inr (JObject 0),
             installed_state\<lparr>heap := heap installed_state @
                  [[(str ''status'', JStr (str ''success'')), (str ''data'', JNull)]],
                writes := [SetStatus (JNum 201), SendJson (JObject 8)]\<rparr>)"
    using attached_success_emits [of installed_state "JObject 0"
        "[JNull, JNum 201, JStr (str ''ok'')]" "JStr (str ''success'')"] installed_target
    by (simp del: get_prop.simps add: call_method_def nullish_def installed_jsend installed_methods installed_size
        arg_def default_param_def)
  show "call_method installed_state (get_prop (heap installed_state) (JObject 0) (str ''jsend''))
       (str ''fail'') [JNull, JNum 422, JStr (str ''invalid'')] =
       Some (Inr (JObject 0),
             installed_state\<lparr>heap := heap installed_state @
                  [[(str ''status'', JStr (str ''fail'')), (str ''data'', JNull)]],
                writes := [SetStatus (JNum 422), SendJson (JObject 8)]\<rparr>)"
    using attached_fail_emits [of installed_state "JObject 0"
        "[JNull, JNum 422, JStr (str ''invalid'')]" "JStr (str ''fail'')"] installed_target
    by (simp del: get_prop.simps add: call_method_def nullish_def installed_jsend installed_methods installed_size
        arg_def default_param_def)
qed

theorem installed_operations_drop_explicit_label_witness:
  "call_method installed_state (JObject 4) (str ''success'') [JNull, JNum 201, JStr (str ''ok'')] =
       Some (Inr (JObject 0),
             installed_state\<lparr>heap := heap installed_state @
                  [[(str ''status'', JStr (str ''success'')), (str ''data'', JNull)]],
                writes := [SetStatus (JNum 201), SendJson (JObject 8)]\<rparr>)"
  using installed_operations_drop_explicit_label
  by (simp only: installed_jsend)

text \<open>
  C7. When \<^verbatim>\<open>options.extra\<close> is an object (or array) at address \<open>a\<close>, error sends an
  envelope whose \<^verbatim>\<open>extra\<close> is a new object, at an address other than \<open>a\<close>, with the
  properties the caller's object has at the time of the call (the values themselves are
  shared: the copy is shallow). Whatever is later stored at \<open>a\<close>, by an assignment to a
  property of the caller's object or otherwise, the properties of the envelope and of
  its \<^verbatim>\<open>extra\<close> stay the same.
\<close>

theorem error_extra_shallow_copy:
  assumes "valid_target (heap st) (res this)"
    and "valid_message (default_param message0 (JStr (str ''Internal Server Error'')))"
    and "option_prop (heap st) options0 (str ''extra'') = extra"
    and "extra = JObject a \<or> extra = JArray a"
    and "a < length (heap st)"
    and "e = length (heap st)"
    and "st' = snd (Jsend_error st this message0 status0 options0 label0)"
  shows "fst (Jsend_error st this message0 status0 options0 label0) = Inr (res this)
    \<and> writes st' = writes st @ [SetStatus (default_param status0 (JNum 500)), SendJson (JObject e)]
    \<and> get_prop (heap st') (JObject e) (str ''extra'') = JObject (Suc e)
    \<and> Suc e \<noteq> a
    \<and> obj_props (heap st') (Suc e) = obj_props (heap st) a
    \<and> (\<forall>ps. obj_props ((heap st')[a := ps]) (Suc e) = obj_props (heap st) a
            \<and> obj_props ((heap st')[a := ps]) e = obj_props (heap st') e)
    \<and> (\<forall>k x. obj_props (set_prop (heap st') extra k x) (Suc e) = obj_props (heap st) a
            \<and> obj_props (set_prop (heap st') extra k x) e = obj_props (heap st') e)"
proof -
  let ?code = "option_prop (heap st) options0 (str ''code'')"
  let ?details = "option_prop (heap st) options0 (str ''details'')"
  let ?env = "[(str ''status'', default_param label0 (JStr (str ''error''))),
             (str ''message'', default_param message0 (JStr (str ''Internal Server Error'')))]
            @ spread_if ?code [(str ''code'', ?code)]
            @ spread_if ?details [(str ''details'', ?details)]
            @ [(str ''extra'', JObject (Suc (length (heap st))))]"
  have t: "truthy extra" and ty: "typeof extra = ''object''"
    and sp: "spread (heap st) extra = obj_props (heap st) a"
    using assms(4) by auto
  have n: "options0 \<noteq> JNull"
    using assms(3) t by (auto simp: option_prop_def)
  have x: "\<not> (truthy (option_prop (heap st) options0 (str ''extra''))
              \<and> typeof (option_prop (heap st) options0 (str ''extra'')) \<noteq> ''object'')"
    using assms(3) ty by simp
  have r: "Jsend_error st this message0 status0 options0 label0 =
    (Inr (res this),
     st\<lparr>heap := heap st @ [?env, obj_props (heap st) a],
        writes := writes st @ [SetStatus (default_param status0 (JNum 500)),
                               SendJson (JObject (length (heap st)))]\<rparr>)"
    using Jsend_error_emits [OF assms(1) assms(2) n x, of status0 label0] t sp
    by (simp add: assms(3) spread_if_def)
  have h: "heap st' = heap st @ [?env, obj_props (heap st) a]"
    and w: "writes st' = writes st @ [SetStatus (default_param status0 (JNum 500)),
                               SendJson (JObject (length (heap st)))]"
    unfolding assms(7) r by simp_all
  have le: "length (heap st') = Suc (Suc (length (heap st)))"
    unfolding h by simp
  have pe: "obj_props (heap st') (length (heap st)) = ?env"
    unfolding h by (simp add: obj_props_def nth_append)
  have pc: "obj_props (heap st') (Suc (length (heap st))) = obj_props (heap st) a"
    unfolding h by (simp add: obj_props_def nth_append)
  have pa: "\<And>ps. obj_props ((heap st')[a := ps]) (Suc (length (heap st))) = obj_props (heap st) a
            \<and> obj_props ((heap st')[a := ps]) (length (heap st)) = obj_props (heap st') (length (heap st))"
    using assms(5) pe pc by (simp add: obj_props_def le)
  have ge: "get_prop (heap st') (JObject (length (heap st))) (str ''extra'') = JObject (Suc (length (heap st)))"
    by (simp add: pe lookup_def spread_if_def)
  have sm: "\<And>k x. set_prop (heap st') extra k x = (heap st')[a := AList.update k x (heap st' ! a)]"
    using assms(4,5) le by auto
  show ?thesis
    unfolding assms(6)
    using r w ge pc pa assms(5) by (simp add: sm)
qed

theorem error_extra_shallow_copy_witness:
  "fst (Jsend_error db_state \<lparr>res = JObject 0\<rparr> (JStr (str ''DB down'')) (JNum 500) (JObject 3) JUndefined)
     = Inr (JObject 0)
   \<and> get_prop (heap (snd (Jsend_error db_state \<lparr>res = JObject 0\<rparr> (JStr (str ''DB down'')) (JNum 500)
                             (JObject 3) JUndefined)))
        (JObject 6) (str ''extra'') = JObject 7
   \<and> obj_props (heap (snd (Jsend_error db_state \<lparr>res = JObject 0\<rparr> (JStr (str ''DB down'')) (JNum 500)
                             (JObject 3) JUndefined))) 7
       = [(str ''traceId'', JStr (str ''abc123''))]
   \<and> obj_props
        (set_prop (heap (snd (Jsend_error db_state \<lparr>res = JObject 0\<rparr> (JStr (str ''DB down''))
                                (JNum 500) (JObject 3) JUndefined)))
           (JObject 5) (str ''traceId'') (JStr (str ''changed''))) 7
       = [(str ''traceId'', JStr (str ''abc123''))]"
proof -
  have v: "valid_target (heap db_state) (res \<lparr>res = JObject 0\<rparr>)"
    by (simp add: valid_target_def db_state_def obj_props_def lookup_def)
  have m: "valid_message (default_param (JStr (str ''DB down'')) (JStr (str ''Internal Server Error'')))"
    by (simp add: default_param_def js_trim_def str_def js_whitespace_def)
  have x: "option_prop (heap db_state) (JObject 3) (str ''extra'') = JObject 5"
    by (simp add: option_prop_def db_state_def obj_props_def lookup_def)
  have a: "JObject 5 = JObject 5 \<or> JObject 5 = JArray 5" by simp
  have l: "5 < length (heap db_state)" and e: "6 = length (heap db_state)"
    and p: "obj_props (heap db_state) 5 = [(str ''traceId'', JStr (str ''abc123''))]"
    by (simp_all add: db_state_def obj_props_def)
  show ?thesis
    using error_extra_shallow_copy [OF v m x a l e refl, of "JNum 500" JUndefined]
    by (simp add: p)
qed

text \<open>
  C8. Constructing a Formatter over a response target that is absent (\<^verbatim>\<open>undefined\<close> or
  \<^verbatim>\<open>null\<close>), or whose \<^verbatim>\<open>status\<close> is not a function, or whose \<^verbatim>\<open>json\<close> is not a
  function, raises InvalidResponseTarget and leaves the state (heap and writes) as it
  was; over a target with both capabilities it succeeds, again without a write.
\<close>

theorem Jsend_constructor_validates:
  "(nullish r
      \<or> typeof (get_prop (heap st) r (str ''status'')) \<noteq> ''function''
      \<or> typeof (get_prop (heap st) r (str ''json'')) \<noteq> ''function''
    \<longrightarrow> Jsend_constructor st r = (Inl InvalidResponseTarget, st))
   \<and> (typeof (get_prop (heap st) r (str ''status'')) = ''function''
      \<and> typeof (get_prop (heap st) r (str ''json'')) = ''function''
    \<longrightarrow> Jsend_constructor st r = (Inr \<lparr>res = r\<rparr>, st))"
proof (intro conjI impI)
  assume "nullish r
      \<or> typeof (get_prop (heap st) r (str ''status'')) \<noteq> ''function''
      \<or> typeof (get_prop (heap st) r (str ''json'')) \<noteq> ''function''"
  then show "Jsend_constructor st r = (Inl InvalidResponseTarget, st)"
    by (auto simp: Jsend_constructor_def nullish_def)
next
  assume "typeof (get_prop (heap st) r (str ''status'')) = ''function''
      \<and> typeof (get_prop (heap st) r (str ''json'')) = ''function''"
  then have "valid_target (heap st) r" by (simp add: valid_target_def)
  then show "Jsend_constructor st r = (Inr \<lparr>res = r\<rparr>, st)"
    by (rule Jsend_constructor_valid)
qed

theorem Jsend_constructor_validates_witness:
  "Jsend_constructor example_state JUndefined = (Inl InvalidResponseTarget, example_state)
   \<and> Jsend_constructor example_state (JObject 1) = (Inl InvalidResponseTarget, example_state)
   \<and> Jsend_constructor example_state (JObject 0) = (Inr \<lparr>res = JObject 0\<rparr>, example_state)"
  using Jsend_constructor_validates [of JUndefined example_state]
    Jsend_constructor_validates [of "JObject 1" example_state]
    Jsend_constructor_validates [of "JObject 0" example_state]
  by (simp add: nullish_def example_state_def obj_props_def lookup_def)

text \<open>
  C9. An array passed as data is never rejected with InvalidDataKind by success or fail,
  and on a target with both capabilities it is emitted as the envelope's \<^verbatim>\<open>data\<close>
  field, with the status code and label given or defaulted.
\<close>

theorem array_data_accepted:
  "fst (Jsend_success st this (JArray a) status0 label0) \<noteq> Inl InvalidDataKind
   \<and> fst (Jsend_fail st this (JArray a) status0 label0) \<noteq> Inl InvalidDataKind
   \<and> (valid_target (heap st) (res this) \<longrightarrow>
        Jsend_success st this (JArray a) status0 label0 =
          (Inr (res this),
           st\<lparr>heap := heap st @ [[(str ''status'', default_param label0 (JStr (str ''success''))),
                                   (str ''data'', JArray a)]],
              writes := writes st @ [SetStatus (default_param status0 (JNum 200)),
                                     SendJson (JObject (length (heap st)))]\<rparr>)
        \<and> Jsend_fail st this (JArray a) status0 label0 =
          (Inr (res this),
           st\<lparr>heap := heap st @ [[(str ''status'', default_param label0 (JStr (str ''fail''))),
                                   (str ''data'', JArray a)]],
              writes := writes st @ [SetStatus (default_param status0 (JNum 400)),
                                     SendJson (JObject (length (heap st)))]\<rparr>))"
proof (intro conjI impI)
  show "fst (Jsend_success st this (JArray a) status0 label0) \<noteq> Inl InvalidDataKind"
    by (simp add: Jsend_success_raises_iff default_param_def)
  show "fst (Jsend_fail st this (JArray a) status0 label0) \<noteq> Inl InvalidDataKind"
    by (simp add: Jsend_fail_raises_iff default_param_def)
next
  assume v: "valid_target (heap st) (res this)"
  show "Jsend_success st this (JArray a) status0 label0 =
          (Inr (res this),
           st\<lparr>heap := heap st @ [[(str ''status'', default_param label0 (JStr (str ''success''))),
                                   (str ''data'', JArray a)]],
              writes := writes st @ [SetStatus (default_param status0 (JNum 200)),
                                     SendJson (JObject (length (heap st)))]\<rparr>)"
    using Jsend_success_emits [OF v, of "JArray a" status0 label0]
    by (simp add: default_param_def)
  show "Jsend_fail st this (JArray a) status0 label0 =
          (Inr (res this),
           st\<lparr>heap := heap st @ [[(str ''status'', default_param label0 (JStr (str ''fail''))),
                                   (str ''data'', JArray a)]],
              writes := writes st @ [SetStatus (default_param status0 (JNum 400)),
                                     SendJson (JObject (length (heap st)))]\<rparr>)"
    using Jsend_fail_emits [OF v, of "JArray a" status0 label0]
    by (simp add: default_param_def)
qed

theorem array_data_accepted_witness:
  "Jsend_success array_state \<lparr>res = JObject 0\<rparr> (JArray 3) JUndefined JUndefined =
     (Inr (JObject 0),
      array_state\<lparr>heap := heap array_state @
                     [[(str ''status'', JStr (str ''success'')), (str ''data'', JArray 3)]],
                  writes := [SetStatus (JNum 200), SendJson (JObject 4)]\<rparr>)
   \<and> Jsend_fail array_state \<lparr>res = JObject 0\<rparr> (JArray 3) JUndefined JUndefined =
     (Inr (JObject 0),
      array_state\<lparr>heap := heap array_state @
                     [[(str ''status'', JStr (str ''fail'')), (str ''data'', JArray 3)]],
                  writes := [SetStatus (JNum 400), SendJson (JObject 4)]\<rparr>)"
proof -
  have v: "valid_target (heap array_state) (res \<lparr>res = JObject 0\<rparr>)"
    by (simp add: valid_target_def array_state_def obj_props_def lookup_def)
  have l: "length (heap array_state) = 4" and w: "writes array_state = []"
    by (simp_all add: array_state_def)
  show ?thesis
    using array_data_accepted [of array_state "\<lparr>res = JObject 0\<rparr>" 3 JUndefined JUndefined] v
    by (simp add: default_param_def l w)
qed

text \<open>
  C10. success and fail are the same function up to their defaults: with an explicit
  status code and label they return the same outcome and the same state; each equals the
  other called with its own defaults filled in (200 and "success", 400 and "fail"); and
  they raise InvalidDataKind under the same condition on the data, whatever the status
  code and label.
\<close>

theorem success_fail_same_function:
  "(status0 \<noteq> JUndefined \<and> label0 \<noteq> JUndefined \<longrightarrow>
      Jsend_success st this data0 status0 label0 = Jsend_fail st this data0 status0 label0)
   \<and> Jsend_success st this data0 status0 label0 =
       Jsend_fail st this data0 (default_param status0 (JNum 200))
         (default_param label0 (JStr (str ''success'')))
   \<and> Jsend_fail st this data0 status0 label0 =
       Jsend_success st this data0 (default_param status0 (JNum 400))
         (default_param label0 (JStr (str ''fail'')))
   \<and> ((fst (Jsend_success st this data0 status0 label0) = Inl InvalidDataKind) =
       (fst (Jsend_fail st this data0 status1 label1) = Inl InvalidDataKind))"
proof (intro conjI impI)
  assume "status0 \<noteq> JUndefined \<and> label0 \<noteq> JUndefined"
  then show "Jsend_success st this data0 status0 label0 = Jsend_fail st this data0 status0 label0"
    by (simp add: Jsend_success_def Jsend_fail_def default_param_def)
next
  show "Jsend_success st this data0 status0 label0 =
       Jsend_fail st this data0 (default_param status0 (JNum 200))
         (default_param label0 (JStr (str ''success'')))"
    by (simp add: Jsend_success_def Jsend_fail_def default_param_def)
  show "Jsend_fail st this data0 status0 label0 =
       Jsend_success st this data0 (default_param status0 (JNum 400))
         (default_param label0 (JStr (str ''fail'')))"
    by (simp add: Jsend_success_def Jsend_fail_def default_param_def)
  show "(fst (Jsend_success st this data0 status0 label0) = Inl InvalidDataKind) =
       (fst (Jsend_fail st this data0 status1 label1) = Inl InvalidDataKind)"
    by (simp only: Jsend_success_raises_iff Jsend_fail_raises_iff)
qed

theorem success_fail_same_function_witness:
  "Jsend_success example_state \<lparr>res = JObject 0\<rparr> JNull (JNum 201) (JStr (str ''ok'')) =
     Jsend_fail example_state \<lparr>res = JObject 0\<rparr> JNull (JNum 201) (JStr (str ''ok''))
   \<and> Jsend_fail example_state \<lparr>res = JObject 0\<rparr> JNull JUndefined JUndefined =
     Jsend_success example_state \<lparr>res = JObject 0\<rparr> JNull (JNum 400) (JStr (str ''fail''))"
proof
  have "JNum 201 \<noteq> JUndefined \<and> JStr (str ''ok'') \<noteq> JUndefined" by simp
  with success_fail_same_function
          [of "JNum 201" "JStr (str ''ok'')" example_state "\<lparr>res = JObject 0\<rparr>" JNull,
           THEN conjunct1]
  show "Jsend_success example_state \<lparr>res = JObject 0\<rparr> JNull (JNum 201) (JStr (str ''ok'')) =
     Jsend_fail example_state \<lparr>res = JObject 0\<rparr> JNull (JNum 201) (JStr (str ''ok''))"
    by (rule mp)
next
  have "default_param JUndefined (JNum 400) = JNum 400"
    and "default_param JUndefined (JStr (str ''fail'')) = JStr (str ''fail'')"
    by (simp_all add: default_param_def)
  with success_fail_same_function
          [of JUndefined JUndefined example_state "\<lparr>res = JObject 0\<rparr>" JNull,
           THEN conjunct2, THEN conjunct2, THEN conjunct1]
  show "Jsend_fail example_state \<lparr>res = JObject 0\<rparr> JNull JUndefined JUndefined =
     Jsend_success example_state \<lparr>res = JObject 0\<rparr> JNull (JNum 400) (JStr (str ''fail''))"
    by simp
qed

end
